theory Spec2Isabelle
  imports Main
begin

section \<open>Data model of the assets service\<close>

text \<open>
  The service under study is \<^verbatim>\<open>AssetsService\<close> (methods \<^verbatim>\<open>getAsset\<close> and
  \<^verbatim>\<open>getUrl\<close>) with its two module-level helpers \<^verbatim>\<open>getAssetSuffix\<close> and
  \<^verbatim>\<open>addAliyunOSSImageProcessParamsToURL\<close>.

  JavaScript numbers that hold byte offsets, byte sizes and pixel dimensions are modelled as
  \<open>int\<close> (no \<^verbatim>\<open>NaN\<close>, no fractions); an optional property is an \<open>option\<close>.
\<close>

datatype error = Forbidden | RangeNotSatisfiable | IllegalAssetTransformation

text \<open>\<^verbatim>\<open>Range\<close> of the drive package: \<^verbatim>\<open>{ start?: number; end?: number }\<close>.\<close>

record Range =
  start :: "int option"
  end' :: "int option"

text \<open>
  Argument values of a transformation are JSON-like JavaScript values: \<^verbatim>\<open>undefined\<close>,
  \<^verbatim>\<open>null\<close>, booleans, numbers, strings and objects (arrays are left out; none of the code
  below looks inside one).
\<close>

datatype jsval =
    Undefined
  | Null
  | Bool bool
  | Num int
  | Str string
  | Obj "(string \<times> jsval) list"

text \<open>JavaScript truthiness, as used by \<^verbatim>\<open>if (x)\<close>, \<^verbatim>\<open>x && y\<close> and \<^verbatim>\<open>!x\<close>.\<close>

fun truthy :: "jsval \<Rightarrow> bool" where
  "truthy Undefined = False"
| "truthy Null = False"
| "truthy (Bool b) = b"
| "truthy (Num n) = (n \<noteq> 0)"
| "truthy (Str s) = (s \<noteq> [])"
| "truthy (Obj kvs) = True"

text \<open>Truthiness of an optional number and of an optional string.\<close>

definition truthy_num :: "int option \<Rightarrow> bool" where
  "truthy_num x = (case x of None \<Rightarrow> False | Some n \<Rightarrow> n \<noteq> 0)"

definition truthy_str :: "string option \<Rightarrow> bool" where
  "truthy_str x = (case x of None \<Rightarrow> False | Some s \<Rightarrow> s \<noteq> [])"

text \<open>
  A \<^verbatim>\<open>Transformation\<close> is the tuple \<^verbatim>\<open>[method, ...args]\<close>: the name of a method of the
  image pipeline and the arguments it is called with.
\<close>

type_synonym Transformation = "string \<times> jsval list"

text \<open>
  A transformation request (\<^verbatim>\<open>TransformationParams | TransformationPreset\<close>): only its
  \<^verbatim>\<open>suffix\<close> is read by the service itself, the rest is handed to
  \<^verbatim>\<open>TransformationUtils.resolvePreset\<close>.
\<close>

record TransformationParams =
  params :: jsval
  suffix :: "string option"

text \<open>The columns of \<^verbatim>\<open>directus_files\<close> that the service reads.\<close>

record File =
  file_id :: string
  storage :: string
  filename_disk :: string
  file_type :: "string option"
  filesize :: int
  width :: "int option"
  height :: "int option"

section \<open>Byte ranges (getAsset, the block under \<^verbatim>\<open>if (range)\<close>)\<close>

text \<open>The four checks whose disjunction throws \<^verbatim>\<open>RangeNotSatisfiableException\<close>.\<close>

definition missingRangeLimits :: "Range \<Rightarrow> bool" where
  "missingRangeLimits r = (start r = None \<and> end' r = None)"

definition endBeforeStart :: "Range \<Rightarrow> bool" where
  "endBeforeStart r =
     (case start r of None \<Rightarrow> False
      | Some s \<Rightarrow> (case end' r of None \<Rightarrow> False | Some e \<Rightarrow> e \<le> s))"

definition startOverflow :: "Range \<Rightarrow> int \<Rightarrow> bool" where
  "startOverflow r fsize = (case start r of None \<Rightarrow> False | Some s \<Rightarrow> s \<ge> fsize)"

definition endUnderflow :: "Range \<Rightarrow> bool" where
  "endUnderflow r = (case end' r of None \<Rightarrow> False | Some e \<Rightarrow> e \<le> 0)"

definition rangeRejected :: "Range \<Rightarrow> int \<Rightarrow> bool" where
  "rangeRejected r fsize =
     (missingRangeLimits r \<or> endBeforeStart r \<or> startOverflow r fsize \<or> endUnderflow r)"

text \<open>
  The block \<^verbatim>\<open>if (range.end) { ... }\<close>: entered when \<^verbatim>\<open>end\<close> is defined and not zero.
\<close>

definition normalizeEnd :: "Range \<Rightarrow> int \<Rightarrow> Range" where
  "normalizeEnd r fsize =
     (let lastByte = fsize - 1 in
      case end' r of
        None \<Rightarrow> r
      | Some e \<Rightarrow>
          if e = 0 then r
          else
            (let r1 = (case start r of
                         None \<Rightarrow> r\<lparr>start := Some (fsize - e), end' := Some lastByte\<rparr>
                       | Some s \<Rightarrow> r)
             in (case end' r1 of
                   None \<Rightarrow> r1
                 | Some e1 \<Rightarrow> if e1 \<ge> fsize then r1\<lparr>end' := Some lastByte\<rparr> else r1)))"

text \<open>
  The block \<^verbatim>\<open>if (range.start) { ... }\<close>: entered when \<^verbatim>\<open>start\<close> is defined and not
  zero.
\<close>

definition normalizeStart :: "Range \<Rightarrow> int \<Rightarrow> Range" where
  "normalizeStart r fsize =
     (let lastByte = fsize - 1 in
      case start r of
        None \<Rightarrow> r
      | Some s \<Rightarrow>
          if s = 0 then r
          else
            (let r1 = (case end' r of None \<Rightarrow> r\<lparr>end' := Some lastByte\<rparr> | Some e \<Rightarrow> r)
             in (case start r1 of
                   None \<Rightarrow> r1
                 | Some s1 \<Rightarrow> if s1 < 0 then r1\<lparr>start := Some 0\<rparr> else r1)))"

text \<open>The whole block: the checks, then the two normalisation steps in source order.\<close>

definition normalizeRange :: "Range \<Rightarrow> int \<Rightarrow> error + Range" where
  "normalizeRange r fsize =
     (if rangeRejected r fsize then Inl RangeNotSatisfiable
      else Inr (normalizeStart (normalizeEnd r fsize) fsize))"

section \<open>Variant suffix (getAssetSuffix)\<close>

text \<open>
  \<^verbatim>\<open>hash\<close> is the \<^verbatim>\<open>object-hash\<close> package, taken as a parameter: some function from the
  operation list to a string. \<^verbatim>\<open>Object.keys(transforms).length === 0\<close> holds of an array
  exactly when it has no element.
\<close>

definition getAssetSuffix ::
  "(Transformation list \<Rightarrow> string) \<Rightarrow> Transformation list \<Rightarrow> string option \<Rightarrow> string" where
  "getAssetSuffix hash transforms sfx =
     (if transforms = [] then []
      else case sfx of
        None \<Rightarrow> ''__'' @ hash transforms
      | Some s \<Rightarrow> if s \<noteq> [] then ''.'' @ s else ''__'' @ hash transforms)"

section \<open>Provider URL rewriting (addAliyunOSSImageProcessParamsToURL)\<close>

text \<open>
  Reading a property of a value: an object yields the stored value or \<^verbatim>\<open>undefined\<close>;
  numbers, strings and booleans have none of the properties \<^verbatim>\<open>fit\<close>, \<^verbatim>\<open>width\<close>,
  \<^verbatim>\<open>height\<close> read below.
\<close>

fun getProp :: "jsval \<Rightarrow> string \<Rightarrow> jsval" where
  "getProp (Obj kvs) k = (case map_of kvs k of None \<Rightarrow> Undefined | Some v \<Rightarrow> v)"
| "getProp v k = Undefined"

text \<open>Decimal rendering of an integer, as a template literal prints it.\<close>

definition digit :: "nat \<Rightarrow> char" where
  "digit d = (''0123456789'' ! d)"

fun show_nat :: "nat \<Rightarrow> string" where
  "show_nat n = (if n < 10 then [digit n] else show_nat (n div 10) @ [digit (n mod 10)])"

definition show_int :: "int \<Rightarrow> string" where
  "show_int i = (if i < 0 then ''-'' @ show_nat (nat (- i)) else show_nat (nat i))"

text \<open>String conversion inside a template literal \<^verbatim>\<open>`${v}`\<close>.\<close>

fun toString :: "jsval \<Rightarrow> string" where
  "toString Undefined = ''undefined''"
| "toString Null = ''null''"
| "toString (Bool b) = (if b then ''true'' else ''false'')"
| "toString (Num n) = show_int n"
| "toString (Str s) = s"
| "toString (Obj kvs) = ''[object Object]''"

text \<open>
  The inner \<^verbatim>\<open>switch (options.fit)\<close>: the text appended to \<^verbatim>\<open>cmd\<close>, or \<open>None\<close>
  for the \<^verbatim>\<open>default\<close> branch, which leaves the function with \<^verbatim>\<open>return ''\<close>.
\<close>

definition fitParam :: "jsval \<Rightarrow> string option" where
  "fitParam fit =
     (if fit = Str ''contain'' then Some '',m_lfit''
      else if fit = Str ''cover'' then Some '',m_fill''
      else if fit = Str ''inside'' then Some '',m_lfit''
      else if fit = Str ''outside'' then Some '',mfit''
      else if fit = Str ''fill'' then Some '',fill''
      else None)"

text \<open>The branch \<^verbatim>\<open>case 'resize'\<close>: the finished \<^verbatim>\<open>cmd\<close>, or \<open>None\<close> for the early return.\<close>

definition resizeCmd :: "jsval \<Rightarrow> string option" where
  "resizeCmd options =
     (case fitParam (getProp options ''fit'') of
        None \<Rightarrow> None
      | Some m \<Rightarrow>
          (let cmd = ''resize'' @ m;
               cmd = (if truthy (getProp options ''width'')
                      then cmd @ '',w_'' @ toString (getProp options ''width'') else cmd);
               cmd = (if truthy (getProp options ''height'')
                      then cmd @ '',h_'' @ toString (getProp options ''height'') else cmd)
           in Some cmd))"

text \<open>\<^verbatim>\<open>const [method, args] = t\<close>: the second element of the tuple, if there is one.\<close>

definition secondOf :: "Transformation \<Rightarrow> jsval" where
  "secondOf t = (case snd t of [] \<Rightarrow> Undefined | a # as \<Rightarrow> a)"

text \<open>
  The \<^verbatim>\<open>for\<close> loop over the operations, with the accumulator \<^verbatim>\<open>process\<close>. \<open>None\<close> is
  one of the two \<^verbatim>\<open>return ''\<close> inside the loop; \<open>Some process\<close> is the loop running to
  its end.
\<close>

fun buildProcess :: "string \<Rightarrow> Transformation list \<Rightarrow> string option" where
  "buildProcess process [] = Some process"
| "buildProcess process (t # ts) =
     (let method = fst t; args = secondOf t in
      if method \<noteq> [] \<and> truthy args then
        (if method = ''resize'' then
           (case resizeCmd args of
              None \<Rightarrow> None
            | Some cmd \<Rightarrow> buildProcess (process @ ''/'' @ cmd) ts)
         else None)
      else buildProcess process ts)"

text \<open>\<^verbatim>\<open>s.split(c)\<close> for a one-character separator.\<close>

fun split_on :: "char \<Rightarrow> string \<Rightarrow> string list" where
  "split_on c [] = [[]]"
| "split_on c (x # xs) =
     (if x = c then [] # split_on c xs
      else (case split_on c xs of [] \<Rightarrow> [[x]] | w # ws \<Rightarrow> (x # w) # ws))"

text \<open>\<^verbatim>\<open>url.split('?')[0]\<close> and \<^verbatim>\<open>url.split('?')[1] || ''\<close>.\<close>

definition beforeQuery :: "string \<Rightarrow> string" where
  "beforeQuery u = (case split_on CHR ''?'' u of [] \<Rightarrow> [] | p # ps \<Rightarrow> p)"

definition queryOf :: "string \<Rightarrow> string" where
  "queryOf u = (case split_on CHR ''?'' u of p # q # qs \<Rightarrow> q | _ \<Rightarrow> [])"

text \<open>
  The whole function. Its first parameter stands for the platform's \<^verbatim>\<open>URLSearchParams\<close>:
  \<open>searchParamsSet init key value\<close> is the text of \<^verbatim>\<open>new URLSearchParams(init)\<close> after
  \<^verbatim>\<open>set(key, value)\<close>.
\<close>

definition addAliyunOSSImageProcessParamsToURL ::
  "(string \<Rightarrow> string \<Rightarrow> string \<Rightarrow> string) \<Rightarrow> string \<Rightarrow> Transformation list \<Rightarrow> string" where
  "addAliyunOSSImageProcessParamsToURL searchParamsSet u transforms =
     (case buildProcess [] transforms of
        None \<Rightarrow> []
      | Some process \<Rightarrow>
          if process = [] then u
          else beforeQuery u @ ''?'' @
               searchParamsSet (queryOf u) ''x-oss-process'' (''image'' @ process))"

section \<open>The service and its collaborators\<close>

text \<open>
  The image pipeline built by \<^verbatim>\<open>sharp({...})\<close>: its two options and the method calls made
  on it, in call order. A call \<^verbatim>\<open>transformer.rotate()\<close> without arguments (orientation
  from the image's metadata) is the entry \<open>(''rotate'', [])\<close>.
\<close>

record Sharp =
  limitInputPixels :: int
  sequentialRead :: bool
  calls :: "Transformation list"

text \<open>
  A byte stream is described by where it comes from: \<^verbatim>\<open>storage.disk(d).getStream(name,
  range)\<close>, or such a stream piped through a pipeline.
\<close>

datatype stream =
    DiskStream string string "Range option"
  | Pipe stream Sharp

text \<open>
  The calls the service makes on its collaborators (database, authorisation service, storage,
  semaphore), each with its arguments. \<open>SemAcquire\<close> and \<open>SemRelease\<close> are the two ends of
  \<^verbatim>\<open>semaphore.runExclusive\<close>.
\<close>

datatype event =
    DbSettings
  | AuthCheck string
  | DbFile string
  | StExists string string
  | StGetStream string string "Range option"
  | StGetStat string string
  | StPut string string stream "string option"
  | StGetDriverName string
  | StGetUrl string string
  | SemAcquire
  | SemRelease

text \<open>
  Everything the two methods read from outside: configuration, the rows of the database, what
  the storage holds when the call starts, and the imported functions whose code is not part of
  the service (\<^verbatim>\<open>uuid-validate\<close>, \<^verbatim>\<open>TransformationUtils\<close>, \<^verbatim>\<open>mime-types\<close>,
  \<^verbatim>\<open>path\<close>, \<^verbatim>\<open>object-hash\<close>, \<^verbatim>\<open>URLSearchParams\<close>).
  \<open>publicSettings\<close> lists the values of the selected settings row; \<open>admin\<close> is
  \<^verbatim>\<open>this.accountability?.admin === true\<close>; \<open>checkAccess\<close> returns the exception the
  authorisation service throws, if any; \<open>validateUUID\<close> is \<^verbatim>\<open>validateUUID(id, 4)\<close>.
\<close>

record Env =
  ASSETS_TRANSFORM_IMAGE_MAX_DIMENSION :: int
  publicSettings :: "string list"
  admin :: bool
  checkAccess :: "string \<Rightarrow> error option"
  directus_files :: "string \<Rightarrow> File option"
  validateUUID :: "string \<Rightarrow> bool"
  disk_exists :: "string \<Rightarrow> string \<Rightarrow> bool"
  getDriverName :: "string \<Rightarrow> string"
  disk_getUrl :: "string \<Rightarrow> string \<Rightarrow> string"
  resolvePreset :: "TransformationParams \<Rightarrow> File \<Rightarrow> Transformation list"
  maybeExtractFormat :: "Transformation list \<Rightarrow> string option"
  contentType :: "string \<Rightarrow> string option"
  basename :: "string \<Rightarrow> string \<Rightarrow> string"
  extname :: "string \<Rightarrow> string"
  hash :: "Transformation list \<Rightarrow> string"
  searchParamsSet :: "string \<Rightarrow> string \<Rightarrow> string \<Rightarrow> string"

text \<open>
  A computation yields the calls it made, in order, and either the exception thrown or the
  value returned.
\<close>

type_synonym 'a io = "event list \<times> (error + 'a)"

definition ret :: "'a \<Rightarrow> 'a io" where
  "ret x = ([], Inr x)"

definition throw :: "error \<Rightarrow> 'a io" where
  "throw err = ([], Inl err)"

definition call :: "event \<Rightarrow> 'a \<Rightarrow> 'a io" where
  "call ev x = ([ev], Inr x)"

definition then_do :: "'a io \<Rightarrow> ('a \<Rightarrow> 'b io) \<Rightarrow> 'b io" where
  "then_do m f =
     (case snd m of
        Inl err \<Rightarrow> (fst m, Inl err)
      | Inr x \<Rightarrow> (fst m @ fst (f x), snd (f x)))"

text \<open>
  \<^verbatim>\<open>semaphore.runExclusive(callback)\<close>: a slot is taken, the callback runs, the slot is given
  back whether the callback returned or threw.
\<close>

definition runExclusive :: "'a io \<Rightarrow> 'a io" where
  "runExclusive body = ([SemAcquire] @ fst body @ [SemRelease], snd body)"

subsection \<open>The common opening of getAsset and getUrl\<close>

text \<open>
  Both methods start with the same statements: the settings query, the UUID check, the access
  check for non-public files of non-admin callers, and the lookup of the file row.
\<close>

definition loadFile :: "Env \<Rightarrow> string \<Rightarrow> File io" where
  "loadFile e ident =
     then_do (call DbSettings (publicSettings e)) (\<lambda>systemPublicKeys.
     if \<not> validateUUID e ident then throw Forbidden
     else
     then_do (if ident \<notin> set systemPublicKeys \<and> \<not> admin e
              then (case checkAccess e ident of
                      None \<Rightarrow> call (AuthCheck ident) ()
                    | Some err \<Rightarrow> then_do (call (AuthCheck ident) ()) (\<lambda>u. throw err))
              else ret ()) (\<lambda>u.
     then_do (call (DbFile ident) (directus_files e ident)) (\<lambda>row.
     case row of
       None \<Rightarrow> throw Forbidden
     | Some file \<Rightarrow> ret file)))"

subsection \<open>Pieces shared by the two transform paths\<close>

text \<open>The condition under which a file is transformed at all.\<close>

definition transformable :: "string option \<Rightarrow> Transformation list \<Rightarrow> bool" where
  "transformable type transforms =
     (case type of
        None \<Rightarrow> False
      | Some t \<Rightarrow> t \<noteq> [] \<and> length transforms > 0 \<and>
                  t \<in> set [''image/jpeg'', ''image/png'', ''image/webp'', ''image/tiff''])"

text \<open>The name under which the variant is stored.\<close>

definition assetFilename ::
  "Env \<Rightarrow> File \<Rightarrow> Transformation list \<Rightarrow> TransformationParams \<Rightarrow> string" where
  "assetFilename e file transforms transformation =
     basename e (filename_disk file) (extname e (filename_disk file)) @
     getAssetSuffix (hash e) transforms (suffix transformation) @
     (case maybeExtractFormat e transforms of
        None \<Rightarrow> extname e (filename_disk file)
      | Some fmt \<Rightarrow> if fmt \<noteq> [] then ''.'' @ fmt else extname e (filename_disk file))"

text \<open>
  \<^verbatim>\<open>if (maybeNewFormat) file.type = contentType(assetFilename) || null\<close>.
\<close>

definition retype :: "Env \<Rightarrow> File \<Rightarrow> Transformation list \<Rightarrow> string \<Rightarrow> File" where
  "retype e file transforms name =
     (if truthy_str (maybeExtractFormat e transforms)
      then file\<lparr>file_type :=
             (if truthy_str (contentType e name) then contentType e name else None)\<rparr>
      else file)"

text \<open>The size check made before a transform is started.\<close>

definition exceeds :: "int option \<Rightarrow> int \<Rightarrow> bool" where
  "exceeds d m = (case d of None \<Rightarrow> False | Some n \<Rightarrow> n > m)"

definition tooLarge :: "Env \<Rightarrow> File \<Rightarrow> bool" where
  "tooLarge e file =
     (\<not> truthy_num (width file) \<or> \<not> truthy_num (height file) \<or>
      exceeds (width file) (ASSETS_TRANSFORM_IMAGE_MAX_DIMENSION e) \<or>
      exceeds (height file) (ASSETS_TRANSFORM_IMAGE_MAX_DIMENSION e))"

text \<open>\<^verbatim>\<open>sharp({ limitInputPixels: Math.pow(MAX, 2), sequentialRead: true })\<close>.\<close>

definition sharp :: "Env \<Rightarrow> Sharp" where
  "sharp e =
     \<lparr>limitInputPixels = (ASSETS_TRANSFORM_IMAGE_MAX_DIMENSION e)\<^sup>2,
      sequentialRead = True, calls = []\<rparr>"

definition invoke :: "Sharp \<Rightarrow> Transformation \<Rightarrow> Sharp" where
  "invoke transformer t = transformer\<lparr>calls := calls transformer @ [t]\<rparr>"

text \<open>
  \<^verbatim>\<open>transforms.forEach(([method, ...args]) => transformer[method].apply(transformer, args))\<close>.
\<close>

definition applyTransforms :: "Sharp \<Rightarrow> Transformation list \<Rightarrow> Sharp" where
  "applyTransforms transformer transforms = foldl invoke transformer transforms"

subsection \<open>getAsset\<close>

record AssetResult =
  res_stream :: stream
  res_file :: File
  res_stat :: "string \<times> string"

text \<open>Serving a stored name: the stream is opened (with the range), then its stat is read.\<close>

definition serve :: "File \<Rightarrow> string \<Rightarrow> Range option \<Rightarrow> File \<Rightarrow> AssetResult io" where
  "serve file name rng shown =
     then_do (call (StGetStream (storage file) name rng) (DiskStream (storage file) name rng))
       (\<lambda>s.
     then_do (call (StGetStat (storage file) name) (storage file, name)) (\<lambda>stat.
     ret \<lparr>res_stream = s, res_file = shown, res_stat = stat\<rparr>))"

text \<open>The callback handed to the semaphore in getAsset.\<close>

definition transformAsset ::
  "Env \<Rightarrow> File \<Rightarrow> File \<Rightarrow> Transformation list \<Rightarrow> string \<Rightarrow> Range option \<Rightarrow> AssetResult io" where
  "transformAsset e file shown transforms name rng =
     then_do (call (StGetStream (storage file) (filename_disk file) rng)
                   (DiskStream (storage file) (filename_disk file) rng)) (\<lambda>readStream.
     let transformer = sharp e;
         transformer = (if find (\<lambda>transform. fst transform = ''rotate'') transforms = None
                        then invoke transformer (''rotate'', []) else transformer);
         transformer = applyTransforms transformer transforms
     in
     then_do (call (StPut (storage file) name (Pipe readStream transformer) (file_type file)) ())
       (\<lambda>u.
     serve file name rng shown))"

definition getAsset ::
  "Env \<Rightarrow> string \<Rightarrow> TransformationParams \<Rightarrow> Range option \<Rightarrow> AssetResult io" where
  "getAsset e ident transformation range0 =
     then_do (loadFile e ident) (\<lambda>file.
     then_do (call (StExists (storage file) (filename_disk file))
                   (disk_exists e (storage file) (filename_disk file))) (\<lambda>exists.
     if \<not> exists then throw Forbidden
     else
     then_do (case range0 of
                None \<Rightarrow> ret None
              | Some r \<Rightarrow> (case normalizeRange r (filesize file) of
                            Inl err \<Rightarrow> throw err
                          | Inr r' \<Rightarrow> ret (Some r'))) (\<lambda>rng.
     let transforms = resolvePreset e transformation file in
     if transformable (file_type file) transforms then
       (let name = assetFilename e file transforms transformation in
        then_do (call (StExists (storage file) name) (disk_exists e (storage file) name))
          (\<lambda>exists.
        let shown = retype e file transforms name in
        if exists then serve file name rng shown
        else if tooLarge e file then throw IllegalAssetTransformation
        else runExclusive (transformAsset e file shown transforms name rng)))
     else serve file (filename_disk file) rng file)))"

subsection \<open>getUrl\<close>

record UrlResult =
  url :: string
  url_file :: "File option"

text \<open>The callback handed to the semaphore in getUrl.\<close>

definition transformUrl ::
  "Env \<Rightarrow> File \<Rightarrow> File \<Rightarrow> Transformation list \<Rightarrow> string \<Rightarrow> UrlResult io" where
  "transformUrl e file shown transforms name =
     then_do (call (StGetStream (storage file) (filename_disk file) None)
                   (DiskStream (storage file) (filename_disk file) None)) (\<lambda>readStream.
     let transformer = invoke (sharp e) (''rotate'', []);
         transformer = applyTransforms transformer transforms
     in
     then_do (call (StPut (storage file) name (Pipe readStream transformer) (file_type file)) ())
       (\<lambda>u.
     then_do (call (StGetUrl (storage file) name) (disk_getUrl e (storage file) name)) (\<lambda>u1.
     ret \<lparr>url = u1, url_file = Some shown\<rparr>)))"

text \<open>
  The provider's URL for the request: rewritten when the file is below the provider's limit of
  20971520 bytes, empty otherwise.
\<close>

definition remoteUrl :: "Env \<Rightarrow> File \<Rightarrow> string \<Rightarrow> Transformation list \<Rightarrow> string" where
  "remoteUrl e file u0 transforms =
     (if filesize file < 20971520
      then addAliyunOSSImageProcessParamsToURL (searchParamsSet e) u0 transforms
      else [])"

definition getUrl :: "Env \<Rightarrow> string \<Rightarrow> TransformationParams \<Rightarrow> UrlResult io" where
  "getUrl e ident transformation =
     then_do (loadFile e ident) (\<lambda>file.
     then_do (call (StGetDriverName (storage file)) (getDriverName e (storage file)))
       (\<lambda>driver.
     if driver \<noteq> ''aliyunoss'' then ret \<lparr>url = [], url_file = None\<rparr>
     else
     then_do (call (StGetUrl (storage file) (filename_disk file))
                   (disk_getUrl e (storage file) (filename_disk file))) (\<lambda>u0.
     let transforms = resolvePreset e transformation file in
     if transformable (file_type file) transforms then
       (let u1 = remoteUrl e file u0 transforms in
        if u1 = [] then
          (let name = assetFilename e file transforms transformation in
           then_do (call (StExists (storage file) name) (disk_exists e (storage file) name))
             (\<lambda>exists.
           let shown = retype e file transforms name in
           if exists then
             then_do (call (StGetUrl (storage file) name) (disk_getUrl e (storage file) name))
               (\<lambda>u2.
             ret \<lparr>url = u2, url_file = Some shown\<rparr>)
           else if tooLarge e file then throw IllegalAssetTransformation
           else runExclusive (transformUrl e file shown transforms name)))
        else ret \<lparr>url = u1, url_file = Some file\<rparr>)
     else ret \<lparr>url = u0, url_file = Some file\<rparr>)))"

section \<open>Classifying the calls\<close>

fun is_db_call :: "event \<Rightarrow> bool" where
  "is_db_call DbSettings = True"
| "is_db_call (DbFile i) = True"
| "is_db_call ev = False"

fun is_storage_call :: "event \<Rightarrow> bool" where
  "is_storage_call (StExists d n) = True"
| "is_storage_call (StGetStream d n r) = True"
| "is_storage_call (StGetStat d n) = True"
| "is_storage_call (StPut d n s t) = True"
| "is_storage_call (StGetDriverName d) = True"
| "is_storage_call (StGetUrl d n) = True"
| "is_storage_call ev = False"

text \<open>Taking a slot of the semaphore, or writing to storage.\<close>

fun gate_or_write :: "event \<Rightarrow> bool" where
  "gate_or_write SemAcquire = True"
| "gate_or_write (StPut d n s t) = True"
| "gate_or_write ev = False"

text \<open>The pipelines whose output is written to storage during a call.\<close>

fun written :: "event list \<Rightarrow> (string \<times> stream) list" where
  "written [] = []"
| "written (StPut d n s t # evs) = (n, s) # written evs"
| "written (ev # evs) = written evs"

section \<open>A concrete installation, for running the model\<close>

text \<open>
  One instance of every parameter, small enough to evaluate. The validator accepts the textual
  shape of a version-4 UUID; the resolver knows three presets by their key; the variant hash
  joins the method names.
\<close>

definition is_hex :: "char \<Rightarrow> bool" where
  "is_hex c = (c \<in> set ''0123456789abcdefABCDEF'')"

definition uuid_v4_shape :: "string \<Rightarrow> bool" where
  "uuid_v4_shape s =
     (case split_on CHR ''-'' s of
        [a, b, c, d, e] \<Rightarrow>
          length a = 8 \<and> length b = 4 \<and> length c = 4 \<and> length d = 4 \<and> length e = 12 \<and>
          list_all is_hex (a @ b @ c @ d @ e) \<and>
          take 1 c = ''4'' \<and> take 1 d \<in> set [''8'', ''9'', ''a'', ''b'', ''A'', ''B'']
      | _ \<Rightarrow> False)"

definition example_id :: string where
  "example_id = ''3fa85f64-5717-4562-b3fc-2c963f66afa6''"

definition example_file :: File where
  "example_file =
     \<lparr>file_id = example_id, storage = ''local'', filename_disk = ''photo.jpg'',
      file_type = Some ''image/jpeg'', filesize = 1000, width = Some 800, height = Some 600\<rparr>"

definition example_presets :: "TransformationParams \<Rightarrow> File \<Rightarrow> Transformation list" where
  "example_presets t f =
     (if params t = Str ''thumbnail''
      then [(''resize'', [Obj [(''fit'', Str ''cover''), (''width'', Num 100)]])]
      else if params t = Str ''turned'' then [(''rotate'', [Num 90])]
      else if params t = Str ''mirrored'' then [(''flop'', [])]
      else [])"

definition example_hash :: "Transformation list \<Rightarrow> string" where
  "example_hash ts = concat (map fst ts)"

definition example_extname :: "string \<Rightarrow> string" where
  "example_extname f =
     (case rev (split_on CHR ''.'' f) of
        x # y # ys \<Rightarrow> ''.'' @ x
      | _ \<Rightarrow> [])"

definition example_basename :: "string \<Rightarrow> string \<Rightarrow> string" where
  "example_basename f ext = take (length f - length ext) f"

definition example_searchParamsSet :: "string \<Rightarrow> string \<Rightarrow> string \<Rightarrow> string" where
  "example_searchParamsSet init k v = (if init = [] then [] else init @ ''&'') @ k @ ''='' @ v"

definition example_env :: Env where
  "example_env =
     \<lparr>ASSETS_TRANSFORM_IMAGE_MAX_DIMENSION = 4000,
      publicSettings = [],
      admin = False,
      checkAccess = (\<lambda>i. None),
      directus_files = (\<lambda>i. if i = example_id then Some example_file else None),
      validateUUID = uuid_v4_shape,
      disk_exists = (\<lambda>d n. n = ''photo.jpg''),
      getDriverName = (\<lambda>d. if d = ''oss'' then ''aliyunoss'' else ''local''),
      disk_getUrl = (\<lambda>d n. ''https://cdn.example/'' @ n),
      resolvePreset = example_presets,
      maybeExtractFormat = (\<lambda>ts. None),
      contentType = (\<lambda>n. Some ''image/jpeg''),
      basename = example_basename,
      extname = example_extname,
      hash = example_hash,
      searchParamsSet = example_searchParamsSet\<rparr>"

text \<open>The same installation with the file kept on the provider's storage.\<close>

definition oss_env :: "File \<Rightarrow> Env" where
  "oss_env f =
     example_env\<lparr>directus_files :=
       (\<lambda>i. if i = example_id then Some (f\<lparr>storage := ''oss''\<rparr>) else None)\<rparr>"

definition preset :: "string \<Rightarrow> TransformationParams" where
  "preset k = \<lparr>params = Str k, suffix = None\<rparr>"

text \<open>A file on the provider's storage whose width is not known.\<close>

definition unsized :: File where
  "unsized = example_file\<lparr>storage := ''oss'', width := None\<rparr>"

section \<open>Reasoning about computations\<close>

lemma then_do_ret [simp]: "then_do (ret x) f = f x"
  by (simp add: then_do_def ret_def)

lemma then_do_throw [simp]: "then_do (throw err) f = throw err"
  by (simp add: then_do_def throw_def)

lemma then_do_call [simp]: "then_do (call ev x) f = (ev # fst (f x), snd (f x))"
  by (simp add: then_do_def call_def)

lemma then_do_pair [simp]:
  "then_do (tr, Inl err) f = (tr, Inl err)"
  "then_do (tr, Inr x) f = (tr @ fst (f x), snd (f x))"
  by (simp_all add: then_do_def)

lemma io_simps [simp]:
  "fst (ret x) = []" "snd (ret x) = Inr x"
  "fst (throw err) = []" "snd (throw err) = Inl err"
  "fst (runExclusive b) = SemAcquire # fst b @ [SemRelease]" "snd (runExclusive b) = snd b"
  by (simp_all add: ret_def throw_def runExclusive_def)

lemma loaded_pair: "snd (loadFile e ident) = Inr file \<Longrightarrow> \<exists>tr. loadFile e ident = (tr, Inr file)"
  by (cases "loadFile e ident") simp

lemma loadFile_invalid:
  "\<not> validateUUID e ident \<Longrightarrow> loadFile e ident = ([DbSettings], Inl Forbidden)"
  by (simp add: loadFile_def throw_def)

lemma loadFile_trace:
  "filter gate_or_write (fst (loadFile e ident)) = [] \<and>
   filter is_storage_call (fst (loadFile e ident)) = []"
  by (simp add: loadFile_def split: option.splits)

lemma serve_eq:
  "serve file name rng shown =
     ([StGetStream (storage file) name rng, StGetStat (storage file) name],
      Inr \<lparr>res_stream = DiskStream (storage file) name rng, res_file = shown,
           res_stat = (storage file, name)\<rparr>)"
  by (simp add: serve_def)

lemma applyTransforms_calls:
  "applyTransforms tr ts = tr\<lparr>calls := calls tr @ ts\<rparr>"
  unfolding applyTransforms_def
  by (induction ts arbitrary: tr) (simp_all add: invoke_def)

lemma snd_transformAsset:
  "\<exists>res. snd (transformAsset e file shown transforms name rng) = Inr res"
  by (simp add: transformAsset_def Let_def serve_eq)

subsection \<open>The concrete installation, evaluated\<close>

lemma example_env_sel:
  "ASSETS_TRANSFORM_IMAGE_MAX_DIMENSION example_env = 4000"
  "publicSettings example_env = []"
  "admin example_env = False"
  "checkAccess example_env = (\<lambda>i. None)"
  "directus_files example_env = (\<lambda>i. if i = example_id then Some example_file else None)"
  "validateUUID example_env = uuid_v4_shape"
  "disk_exists example_env = (\<lambda>d n. n = ''photo.jpg'')"
  "getDriverName example_env = (\<lambda>d. if d = ''oss'' then ''aliyunoss'' else ''local'')"
  "disk_getUrl example_env = (\<lambda>d n. ''https://cdn.example/'' @ n)"
  "resolvePreset example_env = example_presets"
  "maybeExtractFormat example_env = (\<lambda>ts. None)"
  "contentType example_env = (\<lambda>n. Some ''image/jpeg'')"
  "basename example_env = example_basename"
  "extname example_env = example_extname"
  "hash example_env = example_hash"
  "searchParamsSet example_env = example_searchParamsSet"
  by (simp_all add: example_env_def)

lemma oss_env_sel:
  "ASSETS_TRANSFORM_IMAGE_MAX_DIMENSION (oss_env f) = 4000"
  "publicSettings (oss_env f) = []"
  "admin (oss_env f) = False"
  "checkAccess (oss_env f) = (\<lambda>i. None)"
  "directus_files (oss_env f) =
     (\<lambda>i. if i = example_id then Some (f\<lparr>storage := ''oss''\<rparr>) else None)"
  "validateUUID (oss_env f) = uuid_v4_shape"
  "disk_exists (oss_env f) = (\<lambda>d n. n = ''photo.jpg'')"
  "getDriverName (oss_env f) = (\<lambda>d. if d = ''oss'' then ''aliyunoss'' else ''local'')"
  "disk_getUrl (oss_env f) = (\<lambda>d n. ''https://cdn.example/'' @ n)"
  "resolvePreset (oss_env f) = example_presets"
  "maybeExtractFormat (oss_env f) = (\<lambda>ts. None)"
  "contentType (oss_env f) = (\<lambda>n. Some ''image/jpeg'')"
  "basename (oss_env f) = example_basename"
  "extname (oss_env f) = example_extname"
  "hash (oss_env f) = example_hash"
  "searchParamsSet (oss_env f) = example_searchParamsSet"
  by (simp_all add: oss_env_def example_env_def)

lemma example_id_valid: "uuid_v4_shape example_id"
  by (simp add: uuid_v4_shape_def example_id_def is_hex_def)

lemma not_a_uuid_invalid: "\<not> uuid_v4_shape ''not-a-uuid''"
  by (simp add: uuid_v4_shape_def)

lemma example_loads:
  "loadFile example_env example_id =
     ([DbSettings, AuthCheck example_id, DbFile example_id], Inr example_file)"
  by (simp add: loadFile_def example_env_sel example_id_valid)

lemma oss_loads:
  "loadFile (oss_env f) example_id =
     ([DbSettings, AuthCheck example_id, DbFile example_id], Inr (f\<lparr>storage := ''oss''\<rparr>))"
  by (simp add: loadFile_def oss_env_sel example_id_valid)

section \<open>The variant suffix\<close>

text \<open>
  C1, as amended. \<^verbatim>\<open>getAssetSuffix\<close> yields the empty suffix for an empty operation list;
  for a non-empty list it yields \<^verbatim>\<open>.{suffix}\<close> when the suffix is a non-empty string, and
  \<^verbatim>\<open>__{hash(operations)}\<close> when the suffix is absent or is the empty string. Equal operation
  lists without a suffix yield the same suffix.
\<close>

theorem getAssetSuffix_contract:
  "getAssetSuffix h [] sfx = [] \<and>
   (transforms \<noteq> [] \<longrightarrow> s \<noteq> [] \<longrightarrow> getAssetSuffix h transforms (Some s) = ''.'' @ s) \<and>
   (transforms \<noteq> [] \<longrightarrow> getAssetSuffix h transforms None = ''__'' @ h transforms) \<and>
   (transforms \<noteq> [] \<longrightarrow> getAssetSuffix h transforms (Some []) = ''__'' @ h transforms) \<and>
   (transforms \<noteq> [] \<longrightarrow> transforms' = transforms \<longrightarrow>
      getAssetSuffix h transforms' None = getAssetSuffix h transforms None)"
  by (simp add: getAssetSuffix_def)

theorem getAssetSuffix_contract_witness:
  "[(''rotate'', [Num 90])] \<noteq> [] \<and> ''small'' \<noteq> [] \<and>
   getAssetSuffix example_hash [] (Some ''small'') = [] \<and>
   getAssetSuffix example_hash [(''rotate'', [Num 90])] (Some ''small'') = ''.small'' \<and>
   getAssetSuffix example_hash [(''rotate'', [Num 90])] None = ''__rotate'' \<and>
   getAssetSuffix example_hash [(''rotate'', [Num 90])] (Some []) = ''__rotate''"
  using getAssetSuffix_contract [of example_hash "Some ''small''" "[(''rotate'', [Num 90])]"
      "''small''" "[(''rotate'', [Num 90])]"]
  by (simp add: example_hash_def)

text \<open>
  C1 as stated fails for the suffix \<^verbatim>\<open>''\<close>: the test \<^verbatim>\<open>if (suffix)\<close> is false for the empty
  string, so the hash is used and the result is not \<^verbatim>\<open>'.' + suffix\<close>.
\<close>

theorem getAssetSuffix_empty_suffix_counterexample:
  "getAssetSuffix example_hash [(''rotate'', [Num 90])] (Some []) \<noteq> ''.'' @ []"
  by (simp add: getAssetSuffix_def example_hash_def)

section \<open>Identifiers that are not UUIDs\<close>

text \<open>
  C3, as amended. For an id the validator rejects, getAsset and getUrl fail with
  \<open>Forbidden\<close> after exactly one call, the query of \<^verbatim>\<open>directus_settings\<close> that opens both
  methods: no storage call, no access check and no query of \<^verbatim>\<open>directus_files\<close> is made.
\<close>

theorem invalid_id_forbidden:
  "\<not> validateUUID e ident \<Longrightarrow>
   getAsset e ident t rng = ([DbSettings], Inl Forbidden) \<and>
   getUrl e ident t = ([DbSettings], Inl Forbidden)"
  by (simp add: getAsset_def getUrl_def loadFile_invalid then_do_def)

theorem invalid_id_forbidden_witness:
  "\<not> validateUUID example_env ''not-a-uuid'' \<and>
   getAsset example_env ''not-a-uuid'' (preset ''thumbnail'') None = ([DbSettings], Inl Forbidden) \<and>
   getUrl example_env ''not-a-uuid'' (preset ''thumbnail'') = ([DbSettings], Inl Forbidden)"
proof -
  have h: "\<not> validateUUID example_env ''not-a-uuid''"
    by (simp add: example_env_sel not_a_uuid_invalid)
  show ?thesis
    using h invalid_id_forbidden [OF h, of "preset ''thumbnail''" None] by simp
qed

text \<open>
  C3 as stated fails: the settings query is a database call, and it precedes the check.
\<close>

theorem invalid_id_database_counterexample:
  "\<not> validateUUID example_env ''not-a-uuid'' \<and>
   list_ex is_db_call (fst (getAsset example_env ''not-a-uuid'' (preset ''thumbnail'') None)) \<and>
   list_ex is_db_call (fst (getUrl example_env ''not-a-uuid'' (preset ''thumbnail'')))"
  by (simp add: getAsset_def getUrl_def loadFile_def example_env_sel not_a_uuid_invalid)

section \<open>Byte ranges\<close>

lemma rangeRejected_iff:
  "rangeRejected r fsize \<longleftrightarrow>
     (start r = None \<and> end' r = None) \<or>
     (\<exists>s e. start r = Some s \<and> end' r = Some e \<and> e \<le> s) \<or>
     (\<exists>s. start r = Some s \<and> fsize \<le> s) \<or>
     (\<exists>e. end' r = Some e \<and> e \<le> 0)"
  by (auto simp: rangeRejected_def missingRangeLimits_def endBeforeStart_def startOverflow_def
      endUnderflow_def split: option.splits)

lemma getAsset_range_error:
  assumes "snd (loadFile e ident) = Inr file"
    and "disk_exists e (storage file) (filename_disk file)"
  shows "snd (getAsset e ident t (Some r)) = Inl RangeNotSatisfiable \<longleftrightarrow>
         rangeRejected r (filesize file)"
proof -
  from assms(1) obtain tr where ld: "loadFile e ident = (tr, Inr file)"
    using loaded_pair by blast
  show ?thesis
  proof (cases "rangeRejected r (filesize file)")
    case True
    then show ?thesis
      using assms(2) by (simp add: getAsset_def ld normalizeRange_def)
  next
    case False
    obtain res where "snd (transformAsset e file
        (retype e file (resolvePreset e t file) (assetFilename e file (resolvePreset e t file) t))
        (resolvePreset e t file) (assetFilename e file (resolvePreset e t file) t)
        (Some (normalizeStart (normalizeEnd r (filesize file)) (filesize file)))) = Inr res"
      using snd_transformAsset by blast
    with False show ?thesis
      using assms(2) by (simp add: getAsset_def ld normalizeRange_def Let_def serve_eq)
  qed
qed

text \<open>
  C5, as amended. For a request that reaches the range block (the file row is loaded and the
  original exists in storage), getAsset fails with \<open>RangeNotSatisfiable\<close> exactly when both
  bounds are absent, or both are present and end \<open>\<le>\<close> start, or start is present and
  start \<open>\<ge>\<close> filesize, or end is present and end \<open>\<le>\<close> 0 (whether or not start is present).
  A range with both bounds present, 0 \<open>\<le>\<close> start < end and start < filesize is never rejected.
\<close>

theorem range_rejection:
  assumes "snd (loadFile e ident) = Inr file"
    and "disk_exists e (storage file) (filename_disk file)"
  shows "(snd (getAsset e ident t (Some r)) = Inl RangeNotSatisfiable \<longleftrightarrow>
            (start r = None \<and> end' r = None) \<or>
            (\<exists>s e1. start r = Some s \<and> end' r = Some e1 \<and> e1 \<le> s) \<or>
            (\<exists>s. start r = Some s \<and> filesize file \<le> s) \<or>
            (\<exists>e1. end' r = Some e1 \<and> e1 \<le> 0)) \<and>
         (\<forall>s e1. start r = Some s \<and> end' r = Some e1 \<and> 0 \<le> s \<and> s < e1 \<and> s < filesize file \<longrightarrow>
            snd (getAsset e ident t (Some r)) \<noteq> Inl RangeNotSatisfiable)"
  unfolding getAsset_range_error [OF assms] rangeRejected_iff by auto

theorem range_rejection_witness:
  "snd (loadFile example_env example_id) = Inr example_file \<and>
   disk_exists example_env (storage example_file) (filename_disk example_file) \<and>
   snd (getAsset example_env example_id (preset ''none'')
          (Some \<lparr>start = Some 0, end' = Some 99\<rparr>)) \<noteq> Inl RangeNotSatisfiable \<and>
   snd (getAsset example_env example_id (preset ''none'')
          (Some \<lparr>start = None, end' = Some 0\<rparr>)) = Inl RangeNotSatisfiable"
proof -
  have h1: "snd (loadFile example_env example_id) = Inr example_file"
    by (simp add: example_loads)
  have h2: "disk_exists example_env (storage example_file) (filename_disk example_file)"
    by (simp add: example_env_sel example_file_def)
  show ?thesis
    using h1 h2
      range_rejection [OF h1 h2, of "preset ''none''" "\<lparr>start = Some 0, end' = Some 99\<rparr>"]
      range_rejection [OF h1 h2, of "preset ''none''" "\<lparr>start = None, end' = Some 0\<rparr>"]
    by (simp add: example_file_def)
qed

text \<open>
  C5 as stated fails twice on a file of 1000 bytes: the range (-5, -2) has both bounds, end >
  start and start < filesize, yet is rejected because end \<open>\<le>\<close> 0; the range (1000, 2000) has
  0 \<open>\<le>\<close> start < end, yet is rejected because start \<open>\<ge>\<close> filesize.
\<close>

theorem range_rejection_counterexample:
  "filesize example_file = 1000 \<and>
   snd (getAsset example_env example_id (preset ''none'')
          (Some \<lparr>start = Some (- 5), end' = Some (- 2)\<rparr>)) = Inl RangeNotSatisfiable \<and>
   snd (getAsset example_env example_id (preset ''none'')
          (Some \<lparr>start = Some 1000, end' = Some 2000\<rparr>)) = Inl RangeNotSatisfiable"
  by (simp add: getAsset_def example_loads normalizeRange_def rangeRejected_def
      missingRangeLimits_def endBeforeStart_def startOverflow_def endUnderflow_def
      example_file_def example_env_sel)

text \<open>
  C6. A range with only \<^verbatim>\<open>start\<close> given should get \<^verbatim>\<open>end = filesize - 1\<close>. With
  \<^verbatim>\<open>start = 0\<close> the block \<^verbatim>\<open>if (range.start)\<close> is skipped, since 0 is falsy, and \<^verbatim>\<open>end\<close>
  stays absent: here on a file of 10 bytes.
\<close>

theorem start_zero_keeps_end_absent:
  "normalizeRange \<lparr>start = Some 0, end' = None\<rparr> 10 = Inr \<lparr>start = Some 0, end' = None\<rparr>"
  by (simp add: normalizeRange_def rangeRejected_def missingRangeLimits_def endBeforeStart_def
      startOverflow_def endUnderflow_def normalizeEnd_def normalizeStart_def)

text \<open>For every other accepted start the normalisation does what C6 describes.\<close>

lemma start_only_nonzero:
  "s \<noteq> 0 \<Longrightarrow> s < fsize \<Longrightarrow>
   normalizeRange \<lparr>start = Some s, end' = None\<rparr> fsize =
     Inr \<lparr>start = Some (max 0 s), end' = Some (fsize - 1)\<rparr>"
  by (auto simp: normalizeRange_def rangeRejected_def missingRangeLimits_def endBeforeStart_def
      startOverflow_def endUnderflow_def normalizeEnd_def normalizeStart_def Let_def max_def)

text \<open>
  C7. An end-only range asking for the last \<open>n\<close> bytes, \<open>n\<close> positive and at least the
  file size, is normalised to the whole file: start 0, end filesize - 1.
\<close>

theorem end_only_whole_file:
  "0 < n \<Longrightarrow> fsize \<le> n \<Longrightarrow>
   normalizeRange \<lparr>start = None, end' = Some n\<rparr> fsize =
     Inr \<lparr>start = Some 0, end' = Some (fsize - 1)\<rparr>"
  by (auto simp: normalizeRange_def rangeRejected_def missingRangeLimits_def endBeforeStart_def
      startOverflow_def endUnderflow_def normalizeEnd_def normalizeStart_def Let_def)

theorem end_only_whole_file_witness:
  "(0::int) < 20 \<and> (10::int) \<le> 20 \<and>
   normalizeRange \<lparr>start = None, end' = Some 20\<rparr> 10 = Inr \<lparr>start = Some 0, end' = Some 9\<rparr>"
  using end_only_whole_file [of 20 10] by simp

section \<open>The provider URL rewriter\<close>

text \<open>One turn of the loop, by the three ways it can go.\<close>

lemma buildProcess_skip:
  "fst t = [] \<or> \<not> truthy (secondOf t) \<Longrightarrow> buildProcess process (t # ts) = buildProcess process ts"
  by (auto simp: Let_def)

lemma buildProcess_resize:
  "fst t = ''resize'' \<Longrightarrow> truthy (secondOf t) \<Longrightarrow> resizeCmd (secondOf t) = Some cmd \<Longrightarrow>
   buildProcess process (t # ts) = buildProcess (process @ ''/'' @ cmd) ts"
  by (simp add: Let_def)

lemma buildProcess_return:
  "fst t \<noteq> [] \<Longrightarrow> truthy (secondOf t) \<Longrightarrow>
   fst t \<noteq> ''resize'' \<or> resizeCmd (secondOf t) = None \<Longrightarrow>
   buildProcess process (t # ts) = None"
  by (auto simp: Let_def)

text \<open>
  The text of one resize, for any options object: the mode parameter of the fit, then the
  width and the height when they are truthy.
\<close>

lemma resizeCmd_text:
  "resizeCmd options =
     (case fitParam (getProp options ''fit'') of
        None \<Rightarrow> None
      | Some m \<Rightarrow>
          Some (''resize'' @ m @
                (if truthy (getProp options ''width'')
                 then '',w_'' @ toString (getProp options ''width'') else []) @
                (if truthy (getProp options ''height'')
                 then '',h_'' @ toString (getProp options ''height'') else [])))"
  by (simp add: resizeCmd_def Let_def split: option.splits)

lemma fitParam_None:
  "fitParam v = None \<longleftrightarrow>
     v \<notin> {Str ''contain'', Str ''cover'', Str ''inside'', Str ''outside'', Str ''fill''}"
  by (simp add: fitParam_def)

text \<open>
  Any operation with a method and a truthy first argument that is not a resize, or is a resize
  with a fit outside the five, empties the result, wherever it stands in the list.
\<close>

lemma buildProcess_rejects:
  "\<exists>t \<in> set ts. fst t \<noteq> [] \<and> truthy (secondOf t) \<and>
      (fst t \<noteq> ''resize'' \<or> fitParam (getProp (secondOf t) ''fit'') = None) \<Longrightarrow>
   buildProcess process ts = None"
proof (induction ts arbitrary: process)
  case Nil
  then show ?case by simp
next
  case (Cons t ts)
  show ?case
  proof (cases "fst t \<noteq> [] \<and> truthy (secondOf t)")
    case False
    then have "buildProcess process (t # ts) = buildProcess process ts"
      using buildProcess_skip by blast
    moreover from False Cons.prems
    have "\<exists>t \<in> set ts. fst t \<noteq> [] \<and> truthy (secondOf t) \<and>
            (fst t \<noteq> ''resize'' \<or> fitParam (getProp (secondOf t) ''fit'') = None)"
      by auto
    ultimately show ?thesis using Cons.IH by simp
  next
    case True
    show ?thesis
    proof (cases "fst t \<noteq> ''resize'' \<or> fitParam (getProp (secondOf t) ''fit'') = None")
      case True
      with \<open>fst t \<noteq> [] \<and> truthy (secondOf t)\<close> show ?thesis
        by (auto simp: Let_def resizeCmd_def)
    next
      case False
      with Cons.prems
      have rest: "\<exists>t \<in> set ts. fst t \<noteq> [] \<and> truthy (secondOf t) \<and>
            (fst t \<noteq> ''resize'' \<or> fitParam (getProp (secondOf t) ''fit'') = None)"
        by auto
      show ?thesis
        using True False Cons.IH [OF rest]
        by (auto simp: Let_def split: option.splits)
    qed
  qed
qed

lemma rewriter_rejects:
  "\<exists>t \<in> set transforms. fst t \<noteq> [] \<and> truthy (secondOf t) \<and>
      (fst t \<noteq> ''resize'' \<or>
       getProp (secondOf t) ''fit'' \<notin>
         {Str ''contain'', Str ''cover'', Str ''inside'', Str ''outside'', Str ''fill''}) \<Longrightarrow>
   addAliyunOSSImageProcessParamsToURL sp u transforms = []"
  using buildProcess_rejects [of transforms "[]"]
  unfolding fitParam_None addAliyunOSSImageProcessParamsToURL_def by auto

text \<open>Operations without a truthy first argument are passed over, whatever their method.\<close>

lemma buildProcess_drops_skipped:
  "buildProcess process (filter (\<lambda>t. fst t \<noteq> [] \<and> truthy (secondOf t)) ts) =
   buildProcess process ts"
proof (induction ts arbitrary: process)
  case Nil
  then show ?case by simp
next
  case (Cons t ts)
  then show ?case
    by (cases "fst t \<noteq> [] \<and> truthy (secondOf t)") (auto simp: Let_def split: option.splits)
qed

lemma rewriter_ignores_skipped:
  "addAliyunOSSImageProcessParamsToURL sp u
     (filter (\<lambda>t. fst t \<noteq> [] \<and> truthy (secondOf t)) transforms) =
   addAliyunOSSImageProcessParamsToURL sp u transforms"
  by (simp add: addAliyunOSSImageProcessParamsToURL_def buildProcess_drops_skipped)

text \<open>
  C10. The rewriter should return the empty string for every list holding an operation
  other than resize, and name the provider's mode for each fit. It does not for operations
  without arguments: \<^verbatim>\<open>if (method && args)\<close> passes over \<^verbatim>\<open>['flop']\<close> before the
  \<^verbatim>\<open>default: return ''\<close> that rejects every other method, so the URL comes back
  unchanged, the flop is dropped next to a resize, and getUrl answers with the URL of the
  untransformed original. The mode parameter is \<^verbatim>\<open>,m_fill\<close> for cover but \<^verbatim>\<open>,fill\<close> for
  fill and \<^verbatim>\<open>,mfit\<close> for outside, without the \<^verbatim>\<open>m_\<close> that contain, cover and inside carry.
\<close>

theorem rewriter_passes_over_operation_without_arguments:
  "addAliyunOSSImageProcessParamsToURL example_searchParamsSet ''https://cdn.example/photo.jpg''
     [(''flop'', [])] = ''https://cdn.example/photo.jpg'' \<and>
   addAliyunOSSImageProcessParamsToURL example_searchParamsSet ''https://cdn.example/photo.jpg''
     [(''resize'', [Obj [(''fit'', Str ''cover''), (''width'', Num 100)]]), (''flop'', [])] =
     ''https://cdn.example/photo.jpg?x-oss-process=image/resize,m_fill,w_100'' \<and>
   addAliyunOSSImageProcessParamsToURL example_searchParamsSet ''https://cdn.example/photo.jpg''
     [(''rotate'', [Num 90])] = [] \<and>
   getUrl (oss_env example_file) example_id (preset ''mirrored'') =
     ([DbSettings, AuthCheck example_id, DbFile example_id, StGetDriverName ''oss'',
       StGetUrl ''oss'' ''photo.jpg''],
      Inr \<lparr>url = ''https://cdn.example/photo.jpg'',
           url_file = Some (example_file\<lparr>storage := ''oss''\<rparr>)\<rparr>) \<and>
   addAliyunOSSImageProcessParamsToURL example_searchParamsSet ''https://cdn.example/photo.jpg''
     [(''resize'', [Obj [(''fit'', Str ''cover'')]])] =
     ''https://cdn.example/photo.jpg?x-oss-process=image/resize,m_fill'' \<and>
   addAliyunOSSImageProcessParamsToURL example_searchParamsSet ''https://cdn.example/photo.jpg''
     [(''resize'', [Obj [(''fit'', Str ''fill'')]])] =
     ''https://cdn.example/photo.jpg?x-oss-process=image/resize,fill'' \<and>
   addAliyunOSSImageProcessParamsToURL example_searchParamsSet ''https://cdn.example/photo.jpg''
     [(''resize'', [Obj [(''fit'', Str ''outside'')]])] =
     ''https://cdn.example/photo.jpg?x-oss-process=image/resize,mfit''"
proof -
  let ?u = "''https://cdn.example/photo.jpg''"
  let ?f = "example_file\<lparr>storage := ''oss''\<rparr>"
  have r: "addAliyunOSSImageProcessParamsToURL example_searchParamsSet ?u [(''flop'', [])] = ?u"
    by (simp add: addAliyunOSSImageProcessParamsToURL_def secondOf_def)
  have s: "storage ?f = ''oss''" "filename_disk ?f = ''photo.jpg''"
    "file_type ?f = Some ''image/jpeg''" "filesize ?f = 1000"
    by (simp_all add: example_file_def)
  have p: "example_presets (preset ''mirrored'') ?f = [(''flop'', [])]"
    by (simp add: example_presets_def preset_def)
  have m: "transformable (Some ''image/jpeg'') [(''flop'', [])]"
    by (simp add: transformable_def)
  have g: "getUrl (oss_env example_file) example_id (preset ''mirrored'') =
     ([DbSettings, AuthCheck example_id, DbFile example_id, StGetDriverName ''oss'',
       StGetUrl ''oss'' ''photo.jpg''],
      Inr \<lparr>url = ?u, url_file = Some ?f\<rparr>)"
    using m by (simp add: getUrl_def oss_loads oss_env_sel s p remoteUrl_def r Let_def)
  have others:
    "addAliyunOSSImageProcessParamsToURL example_searchParamsSet ?u
       [(''resize'', [Obj [(''fit'', Str ''cover''), (''width'', Num 100)]]), (''flop'', [])] =
       ''https://cdn.example/photo.jpg?x-oss-process=image/resize,m_fill,w_100''"
    "addAliyunOSSImageProcessParamsToURL example_searchParamsSet ?u [(''rotate'', [Num 90])] = []"
    "addAliyunOSSImageProcessParamsToURL example_searchParamsSet ?u
       [(''resize'', [Obj [(''fit'', Str ''cover'')]])] =
       ''https://cdn.example/photo.jpg?x-oss-process=image/resize,m_fill''"
    "addAliyunOSSImageProcessParamsToURL example_searchParamsSet ?u
       [(''resize'', [Obj [(''fit'', Str ''fill'')]])] =
       ''https://cdn.example/photo.jpg?x-oss-process=image/resize,fill''"
    "addAliyunOSSImageProcessParamsToURL example_searchParamsSet ?u
       [(''resize'', [Obj [(''fit'', Str ''outside'')]])] =
       ''https://cdn.example/photo.jpg?x-oss-process=image/resize,mfit''"
    by (simp_all add: addAliyunOSSImageProcessParamsToURL_def secondOf_def resizeCmd_def
        fitParam_def show_int_def digit_def example_searchParamsSet_def beforeQuery_def
        queryOf_def)
  show ?thesis
    using r g others by simp
qed

section \<open>The size check\<close>

lemma loaded_quiet:
  "loadFile e ident = (tr, res) \<Longrightarrow> filter gate_or_write tr = []"
  using loadFile_trace [of e ident] by simp

lemma example_names:
  "example_extname ''photo.jpg'' = ''.jpg''"
  "example_basename ''photo.jpg'' ''.jpg'' = ''photo''"
  by (simp_all add: example_extname_def example_basename_def)

lemma example_transformable:
  "transformable (Some ''image/jpeg'') (example_presets (preset ''thumbnail'') f)"
  "transformable (Some ''image/jpeg'') (example_presets (preset ''turned'') f)"
  by (simp_all add: transformable_def example_presets_def preset_def)

lemma example_variant:
  "filename_disk f = ''photo.jpg'' \<Longrightarrow>
   assetFilename example_env f (example_presets (preset ''turned'') f) (preset ''turned'') =
     ''photo__rotate.jpg''"
  "filename_disk f = ''photo.jpg'' \<Longrightarrow>
   assetFilename (oss_env g) f (example_presets (preset ''turned'') f) (preset ''turned'') =
     ''photo__rotate.jpg''"
  "filename_disk f = ''photo.jpg'' \<Longrightarrow>
   assetFilename (oss_env g) f (example_presets (preset ''thumbnail'') f) (preset ''thumbnail'') =
     ''photo__resize.jpg''"
  by (simp_all add: assetFilename_def example_env_sel oss_env_sel example_names
      example_presets_def preset_def getAssetSuffix_def example_hash_def)

lemma unsized_sel:
  "storage unsized = ''oss''" "filename_disk unsized = ''photo.jpg''"
  "file_type unsized = Some ''image/jpeg''" "filesize unsized = 1000"
  "width unsized = None" "height unsized = Some 600"
  by (simp_all add: unsized_def example_file_def)

lemma unsized_loads: "loadFile (oss_env (example_file\<lparr>width := None\<rparr>)) example_id =
     ([DbSettings, AuthCheck example_id, DbFile example_id], Inr unsized)"
  by (simp add: oss_loads unsized_def)

text \<open>
  C4, as amended. Take a request whose file row is loaded, whose file is transformable, has an
  unknown or oversized width or height, and whose variant is not in storage. Then neither
  getAsset nor getUrl takes a slot of the semaphore or writes to storage. getAsset fails with
  \<open>IllegalAssetTransformation\<close> whenever the original exists in storage and the range, if
  any, is accepted. getUrl fails with \<open>IllegalAssetTransformation\<close> whenever the storage
  driver is \<^verbatim>\<open>aliyunoss\<close> and the provider URL comes out empty; when the provider URL is
  not empty getUrl returns it, and for another driver it returns the empty URL, in both cases
  without looking at the dimensions.
\<close>

theorem dimension_guard:
  assumes ld: "snd (loadFile e ident) = Inr file"
    and tf: "transformable (file_type file) (resolvePreset e t file)"
    and nc: "\<not> disk_exists e (storage file) (assetFilename e file (resolvePreset e t file) t)"
    and big: "tooLarge e file"
  shows "filter gate_or_write (fst (getAsset e ident t rng)) = [] \<and>
         filter gate_or_write (fst (getUrl e ident t)) = [] \<and>
         (disk_exists e (storage file) (filename_disk file) \<and>
          (case rng of None \<Rightarrow> True | Some r \<Rightarrow> \<not> rangeRejected r (filesize file)) \<longrightarrow>
            snd (getAsset e ident t rng) = Inl IllegalAssetTransformation) \<and>
         (getDriverName e (storage file) = ''aliyunoss'' \<and>
          remoteUrl e file (disk_getUrl e (storage file) (filename_disk file))
            (resolvePreset e t file) = [] \<longrightarrow>
            snd (getUrl e ident t) = Inl IllegalAssetTransformation) \<and>
         (getDriverName e (storage file) = ''aliyunoss'' \<and>
          remoteUrl e file (disk_getUrl e (storage file) (filename_disk file))
            (resolvePreset e t file) \<noteq> [] \<longrightarrow>
            snd (getUrl e ident t) =
              Inr \<lparr>url = remoteUrl e file (disk_getUrl e (storage file) (filename_disk file))
                           (resolvePreset e t file),
                   url_file = Some file\<rparr>) \<and>
         (getDriverName e (storage file) \<noteq> ''aliyunoss'' \<longrightarrow>
            snd (getUrl e ident t) = Inr \<lparr>url = [], url_file = None\<rparr>)"
proof -
  from ld obtain tr where l: "loadFile e ident = (tr, Inr file)"
    using loaded_pair by blast
  then have q: "filter gate_or_write tr = []"
    by (rule loaded_quiet)
  have a1: "filter gate_or_write (fst (getAsset e ident t rng)) = []"
    using q tf nc big
    by (simp add: getAsset_def l Let_def normalizeRange_def split: option.splits)
  have a2: "filter gate_or_write (fst (getUrl e ident t)) = []"
    using q tf nc big
    by (simp add: getUrl_def l Let_def)
  have a3: "disk_exists e (storage file) (filename_disk file) \<and>
          (case rng of None \<Rightarrow> True | Some r \<Rightarrow> \<not> rangeRejected r (filesize file)) \<longrightarrow>
            snd (getAsset e ident t rng) = Inl IllegalAssetTransformation"
    using tf nc big
    by (simp add: getAsset_def l Let_def normalizeRange_def split: option.splits)
  have a4: "getDriverName e (storage file) = ''aliyunoss'' \<and>
          remoteUrl e file (disk_getUrl e (storage file) (filename_disk file))
            (resolvePreset e t file) = [] \<longrightarrow>
            snd (getUrl e ident t) = Inl IllegalAssetTransformation"
    using tf nc big
    by (simp add: getUrl_def l Let_def)
  have a5: "getDriverName e (storage file) = ''aliyunoss'' \<and>
          remoteUrl e file (disk_getUrl e (storage file) (filename_disk file))
            (resolvePreset e t file) \<noteq> [] \<longrightarrow>
            snd (getUrl e ident t) =
              Inr \<lparr>url = remoteUrl e file (disk_getUrl e (storage file) (filename_disk file))
                           (resolvePreset e t file),
                   url_file = Some file\<rparr>"
    using tf by (simp add: getUrl_def l Let_def)
  have a6: "getDriverName e (storage file) \<noteq> ''aliyunoss'' \<longrightarrow>
            snd (getUrl e ident t) = Inr \<lparr>url = [], url_file = None\<rparr>"
    by (simp add: getUrl_def l)
  show ?thesis
    using a1 a2 a3 a4 a5 a6 by blast
qed

theorem dimension_guard_witness:
  "snd (loadFile (oss_env (example_file\<lparr>width := None\<rparr>)) example_id) = Inr unsized \<and>
   transformable (file_type unsized)
     (resolvePreset (oss_env (example_file\<lparr>width := None\<rparr>)) (preset ''turned'') unsized) \<and>
   \<not> disk_exists (oss_env (example_file\<lparr>width := None\<rparr>)) (storage unsized)
       (assetFilename (oss_env (example_file\<lparr>width := None\<rparr>)) unsized
          (resolvePreset (oss_env (example_file\<lparr>width := None\<rparr>)) (preset ''turned'') unsized)
          (preset ''turned'')) \<and>
   tooLarge (oss_env (example_file\<lparr>width := None\<rparr>)) unsized \<and>
   snd (getAsset (oss_env (example_file\<lparr>width := None\<rparr>)) example_id (preset ''turned'')
          (Some \<lparr>start = Some 0, end' = Some 99\<rparr>)) = Inl IllegalAssetTransformation \<and>
   snd (getUrl (oss_env (example_file\<lparr>width := None\<rparr>)) example_id (preset ''turned'')) =
     Inl IllegalAssetTransformation \<and>
   filter gate_or_write
     (fst (getAsset (oss_env (example_file\<lparr>width := None\<rparr>)) example_id (preset ''turned'')
          (Some \<lparr>start = Some 0, end' = Some 99\<rparr>))) = [] \<and>
   filter gate_or_write
     (fst (getUrl (oss_env (example_file\<lparr>width := None\<rparr>)) example_id (preset ''turned''))) = [] \<and>
   getDriverName (oss_env (example_file\<lparr>width := None\<rparr>)) (storage unsized) = ''aliyunoss'' \<and>
   remoteUrl (oss_env (example_file\<lparr>width := None\<rparr>)) unsized
     (disk_getUrl (oss_env (example_file\<lparr>width := None\<rparr>)) (storage unsized)
        (filename_disk unsized))
     (resolvePreset (oss_env (example_file\<lparr>width := None\<rparr>)) (preset ''turned'') unsized) = []"
proof -
  let ?e = "oss_env (example_file\<lparr>width := None\<rparr>)"
  have h1: "snd (loadFile ?e example_id) = Inr unsized"
    by (simp add: unsized_loads)
  have h2: "transformable (file_type unsized) (resolvePreset ?e (preset ''turned'') unsized)"
    by (simp add: unsized_sel oss_env_sel example_transformable)
  have h3: "\<not> disk_exists ?e (storage unsized)
       (assetFilename ?e unsized (resolvePreset ?e (preset ''turned'') unsized) (preset ''turned''))"
    by (simp add: oss_env_sel [of "example_file\<lparr>width := None\<rparr>"] unsized_sel example_variant)
  have h4: "tooLarge ?e unsized"
    by (simp add: tooLarge_def unsized_sel truthy_num_def)
  have r: "remoteUrl ?e unsized (disk_getUrl ?e (storage unsized) (filename_disk unsized))
            (resolvePreset ?e (preset ''turned'') unsized) = []"
    by (simp add: remoteUrl_def oss_env_sel unsized_sel example_presets_def preset_def
        addAliyunOSSImageProcessParamsToURL_def secondOf_def)
  have x: "disk_exists ?e (storage unsized) (filename_disk unsized)"
    by (simp add: oss_env_sel unsized_sel)
  have d: "getDriverName ?e (storage unsized) = ''aliyunoss''"
    by (simp add: oss_env_sel unsized_sel)
  show ?thesis
    using h1 h2 h3 h4 r x d
      dimension_guard [OF h1 h2 h3 h4, of "Some \<lparr>start = Some 0, end' = Some 99\<rparr>"]
    by (simp add: rangeRejected_def missingRangeLimits_def endBeforeStart_def startOverflow_def
        endUnderflow_def unsized_sel)
qed

text \<open>
  C4 as stated fails for getUrl: a resize of an image of unknown width, not cached, kept on
  the provider's storage, is answered with the rewritten provider URL and no error.
\<close>

theorem dimension_guard_offload_counterexample:
  "transformable (file_type unsized)
     (resolvePreset (oss_env (example_file\<lparr>width := None\<rparr>)) (preset ''thumbnail'') unsized) \<and>
   \<not> disk_exists (oss_env (example_file\<lparr>width := None\<rparr>)) (storage unsized)
       (assetFilename (oss_env (example_file\<lparr>width := None\<rparr>)) unsized
          (resolvePreset (oss_env (example_file\<lparr>width := None\<rparr>)) (preset ''thumbnail'') unsized)
          (preset ''thumbnail'')) \<and>
   width unsized = None \<and>
   getUrl (oss_env (example_file\<lparr>width := None\<rparr>)) example_id (preset ''thumbnail'') =
     ([DbSettings, AuthCheck example_id, DbFile example_id, StGetDriverName ''oss'',
       StGetUrl ''oss'' ''photo.jpg''],
      Inr \<lparr>url = ''https://cdn.example/photo.jpg?x-oss-process=image/resize,m_fill,w_100'',
           url_file = Some unsized\<rparr>)"
proof -
  let ?e = "oss_env (example_file\<lparr>width := None\<rparr>)"
  have h2: "transformable (file_type unsized) (resolvePreset ?e (preset ''thumbnail'') unsized)"
    by (simp add: unsized_sel oss_env_sel example_transformable)
  have h3: "\<not> disk_exists ?e (storage unsized)
       (assetFilename ?e unsized (resolvePreset ?e (preset ''thumbnail'') unsized)
          (preset ''thumbnail''))"
    by (simp add: oss_env_sel [of "example_file\<lparr>width := None\<rparr>"] unsized_sel example_variant)
  have r: "remoteUrl ?e unsized ''https://cdn.example/photo.jpg''
            (example_presets (preset ''thumbnail'') unsized) =
           ''https://cdn.example/photo.jpg?x-oss-process=image/resize,m_fill,w_100''"
    by (simp add: remoteUrl_def oss_env_sel unsized_sel example_presets_def preset_def
        addAliyunOSSImageProcessParamsToURL_def secondOf_def resizeCmd_def fitParam_def
        show_int_def digit_def example_searchParamsSet_def beforeQuery_def queryOf_def)
  have g: "getUrl ?e example_id (preset ''thumbnail'') =
     ([DbSettings, AuthCheck example_id, DbFile example_id, StGetDriverName ''oss'',
       StGetUrl ''oss'' ''photo.jpg''],
      Inr \<lparr>url = ''https://cdn.example/photo.jpg?x-oss-process=image/resize,m_fill,w_100'',
           url_file = Some unsized\<rparr>)"
    using h2 by (simp add: getUrl_def unsized_loads unsized_sel oss_env_sel r Let_def)
  show ?thesis
    using h2 h3 g by (simp add: unsized_sel)
qed

section \<open>What is written at the variant path\<close>

lemma transformAsset_eq:
  "transformAsset e file shown transforms name rng =
     ([StGetStream (storage file) (filename_disk file) rng,
       StPut (storage file) name
         (Pipe (DiskStream (storage file) (filename_disk file) rng)
            ((sharp e)\<lparr>calls :=
               (if find (\<lambda>transform. fst transform = ''rotate'') transforms = None
                then [(''rotate'', [])] else []) @ transforms\<rparr>))
         (file_type file),
       StGetStream (storage file) name rng, StGetStat (storage file) name],
      Inr \<lparr>res_stream = DiskStream (storage file) name rng, res_file = shown,
           res_stat = (storage file, name)\<rparr>)"
  by (simp add: transformAsset_def Let_def serve_eq applyTransforms_calls invoke_def sharp_def)

lemma transformUrl_eq:
  "transformUrl e file shown transforms name =
     ([StGetStream (storage file) (filename_disk file) None,
       StPut (storage file) name
         (Pipe (DiskStream (storage file) (filename_disk file) None)
            ((sharp e)\<lparr>calls := (''rotate'', []) # transforms\<rparr>))
         (file_type file),
       StGetUrl (storage file) name],
      Inr \<lparr>url = disk_getUrl e (storage file) name, url_file = Some shown\<rparr>)"
  by (simp add: transformUrl_def Let_def applyTransforms_calls invoke_def sharp_def)

lemma written_append [simp]: "written (xs @ ys) = written xs @ written ys"
  by (induction xs rule: written.induct) simp_all

lemma loadFile_writes_nothing: "written (fst (loadFile e ident)) = []"
  by (simp add: loadFile_def split: option.splits)

text \<open>
  In getAsset the pipeline reads the original through the caller's normalised range.
\<close>

lemma getAsset_written:
  assumes "snd (loadFile e ident) = Inr file"
    and "disk_exists e (storage file) (filename_disk file)"
    and "normalizeRange r (filesize file) = Inr r'"
    and "transformable (file_type file) (resolvePreset e t file)"
    and "\<not> disk_exists e (storage file) (assetFilename e file (resolvePreset e t file) t)"
    and "\<not> tooLarge e file"
  shows "written (fst (getAsset e ident t (Some r))) =
     [(assetFilename e file (resolvePreset e t file) t,
       Pipe (DiskStream (storage file) (filename_disk file) (Some r'))
         ((sharp e)\<lparr>calls :=
            (if find (\<lambda>transform. fst transform = ''rotate'') (resolvePreset e t file) = None
             then [(''rotate'', [])] else []) @ resolvePreset e t file\<rparr>))]"
proof -
  from assms(1) obtain tr where l: "loadFile e ident = (tr, Inr file)"
    using loaded_pair by blast
  then have w: "written tr = []"
    using loadFile_writes_nothing [of e ident] by simp
  show ?thesis
    using assms(2-6) w
    by (simp add: getAsset_def l Let_def transformAsset_eq)
qed

text \<open>
  C8. The bytes written at the variant path should not depend on the caller's range. They do:
  the same request writes the variant from bytes 2 to 5 of the original when it carries that
  range, and from the whole original when it carries none.
\<close>

theorem variant_written_from_ranged_source:
  "written (fst (getAsset example_env example_id (preset ''turned'')
      (Some \<lparr>start = Some 2, end' = Some 5\<rparr>))) =
     [(''photo__rotate.jpg'',
       Pipe (DiskStream ''local'' ''photo.jpg'' (Some \<lparr>start = Some 2, end' = Some 5\<rparr>))
         \<lparr>limitInputPixels = 16000000, sequentialRead = True,
          calls = [(''rotate'', [Num 90])]\<rparr>)] \<and>
   written (fst (getAsset example_env example_id (preset ''turned'') None)) =
     [(''photo__rotate.jpg'',
       Pipe (DiskStream ''local'' ''photo.jpg'' None)
         \<lparr>limitInputPixels = 16000000, sequentialRead = True,
          calls = [(''rotate'', [Num 90])]\<rparr>)]"
proof -
  have n: "normalizeRange \<lparr>start = Some 2, end' = Some 5\<rparr> 1000 =
      Inr \<lparr>start = Some 2, end' = Some 5\<rparr>"
    by (simp add: normalizeRange_def rangeRejected_def missingRangeLimits_def
        endBeforeStart_def startOverflow_def endUnderflow_def normalizeEnd_def
        normalizeStart_def)
  have s: "storage example_file = ''local''" "filename_disk example_file = ''photo.jpg''"
    "file_type example_file = Some ''image/jpeg''" "filesize example_file = 1000"
    "\<not> tooLarge example_env example_file"
    by (simp_all add: example_file_def tooLarge_def truthy_num_def exceeds_def example_env_sel)
  have p: "example_presets (preset ''turned'') example_file = [(''rotate'', [Num 90])]"
    by (simp add: example_presets_def preset_def)
  have v: "assetFilename example_env example_file [(''rotate'', [Num 90])] (preset ''turned'') =
      ''photo__rotate.jpg''"
    using example_variant(1) [of example_file] by (simp add: p s)
  show ?thesis
    using example_transformable(2) [of example_file]
    by (simp add: getAsset_def example_loads example_env_sel s n v Let_def transformAsset_eq
        p sharp_def)
qed

text \<open>
  C9. Orientation from metadata should be applied only when the operations hold no explicit
  rotate. getAsset does so (\<open>transformAsset_eq\<close>); getUrl calls \<^verbatim>\<open>rotate()\<close> on every
  pipeline (\<open>transformUrl_eq\<close>), here before an explicit \<^verbatim>\<open>rotate(90)\<close>.
\<close>

theorem getUrl_autorotates_despite_rotate:
  "written (fst (getUrl (oss_env example_file) example_id (preset ''turned''))) =
     [(''photo__rotate.jpg'',
       Pipe (DiskStream ''oss'' ''photo.jpg'' None)
         \<lparr>limitInputPixels = 16000000, sequentialRead = True,
          calls = [(''rotate'', []), (''rotate'', [Num 90])]\<rparr>)]"
proof -
  let ?f = "example_file\<lparr>storage := ''oss''\<rparr>"
  have s: "storage ?f = ''oss''" "filename_disk ?f = ''photo.jpg''"
    "file_type ?f = Some ''image/jpeg''" "filesize ?f = 1000"
    "\<not> tooLarge (oss_env example_file) ?f"
    by (simp_all add: example_file_def tooLarge_def truthy_num_def exceeds_def oss_env_sel)
  have p: "example_presets (preset ''turned'') ?f = [(''rotate'', [Num 90])]"
    by (simp add: example_presets_def preset_def)
  have v: "assetFilename (oss_env example_file) ?f [(''rotate'', [Num 90])] (preset ''turned'') =
      ''photo__rotate.jpg''"
    using example_variant(2) [of ?f example_file] by (simp add: p s)
  have r: "remoteUrl (oss_env example_file) ?f ''https://cdn.example/photo.jpg''
      [(''rotate'', [Num 90])] = []"
    by (simp add: remoteUrl_def addAliyunOSSImageProcessParamsToURL_def secondOf_def)
  show ?thesis
    using example_transformable(2) [of ?f]
    by (simp add: getUrl_def v oss_loads oss_env_sel s p r Let_def transformUrl_eq sharp_def)
qed

end
